theory Spec2Isabelle
  imports Complex_Main "HOL-Library.AList" "HOL-Library.Char_ord"
    "HOL-Library.List_Lexorder" "HOL-Library.Log_Nat"
begin

section \<open>Smart Classroom Scheduler: storage layer and booking routes\<close>

text \<open>
  A shallow embedding of \<^verbatim>\<open>shared/schema.ts\<close>, of the in-memory store
  \<^verbatim>\<open>MemStorage\<close> (server/storage.ts) and of the booking and room handlers of
  \<^verbatim>\<open>server/routes.ts\<close>.

  Strings are \<^typ>\<open>string\<close>; \<open><\<close> and \<open>\<le>\<close> on them are the lexicographic order by
  character code, which is what the JavaScript operators compute on ASCII strings.
  A JavaScript \<^verbatim>\<open>Map\<close> is an association list in insertion order: \<^const>\<open>map_of\<close> is
  \<^verbatim>\<open>get\<close>, \<^const>\<open>AList.update\<close> is \<^verbatim>\<open>set\<close> (an existing key keeps its place, a new
  key goes to the end), \<^const>\<open>AList.delete\<close> is \<^verbatim>\<open>delete\<close>.
\<close>

subsection \<open>shared/schema.ts: the tables\<close>

datatype role = Faculty | Student | Admin

datatype status = Pending | Confirmed | Cancelled

fun status_str :: "status \<Rightarrow> string" where
  "status_str Pending = ''pending''"
| "status_str Confirmed = ''confirmed''"
| "status_str Cancelled = ''cancelled''"

text \<open>Field names carry a prefix where two tables share a column name.\<close>

record User =
  u_id :: string
  u_username :: string
  u_email :: string
  u_password :: string
  u_name :: string
  u_role :: role
  u_createdAt :: nat

record Room =
  r_id :: string
  r_name :: string
  r_capacity :: int
  r_createdAt :: nat

record Booking =
  b_id :: string
  roomId :: string
  facultyId :: string
  courseName :: string
  date :: string
  startTime :: string
  endTime :: string
  expectedAttendance :: "int option"
  specialRequirements :: "string option"
  status :: status
  createdAt :: nat

text \<open>\<^verbatim>\<open>Pick<User, 'id' | 'name' | 'email'>\<close>\<close>

record FacultyInfo =
  f_id :: string
  f_name :: string
  f_email :: string

text \<open>\<^verbatim>\<open>BookingWithDetails = Booking & { room: Room; faculty: Pick<User, ...> }\<close>\<close>

record BookingWithDetails = Booking +
  room :: Room
  faculty :: FacultyInfo

subsection \<open>What the JavaScript runtime supplies\<close>

text \<open>
  A JavaScript number is an IEEE 754 double: NaN, an infinity, or a finite value, given
  here as the rational number it equals. The sign of a zero is not kept; the product,
  the sum and the comparison below do not depend on it.
\<close>

datatype jsnum = NaN | PosInf | NegInf | Fin rat

text \<open>Rounding to an integer, a tie to the even neighbour.\<close>

definition halfEven :: "rat \<Rightarrow> int" where
  "halfEven q =
     (let f = \<lfloor>q\<rfloor>; r = q - of_int f
      in if r < 1 / 2 then f else if r > 1 / 2 then f + 1 else if even f then f else f + 1)"

text \<open>The exponent of the greatest power of two that is at most \<open>x\<close>, for positive \<open>x\<close>.\<close>

definition ilog2 :: "rat \<Rightarrow> int" where
  "ilog2 x =
     (let (a, b) = quotient_of x; d = bitlen a - bitlen b
      in if 2 powi d \<le> x then d else d - 1)"

text \<open>
  The double nearest to a rational, as every arithmetic operation rounds its exact
  result: 53 significant bits, ties to even, the least exponent that of the subnormal
  numbers, and an infinity from \<open>2^1024\<close> on.
\<close>

definition roundDouble :: "rat \<Rightarrow> jsnum" where
  "roundDouble x =
     (if x = 0 then Fin 0
      else
        (let e = max (ilog2 \<bar>x\<bar> - 52) (- 1074);
             v = of_int (halfEven (\<bar>x\<bar> / 2 powi e)) * 2 powi e
         in if v \<ge> 2 powi 1024 then (if x > 0 then PosInf else NegInf)
            else Fin (if x > 0 then v else - v)))"

text \<open>\<^verbatim>\<open>a * b\<close>\<close>

fun js_mul :: "jsnum \<Rightarrow> jsnum \<Rightarrow> jsnum" where
  "js_mul NaN _ = NaN"
| "js_mul _ NaN = NaN"
| "js_mul (Fin a) (Fin b) = roundDouble (a * b)"
| "js_mul (Fin a) PosInf = (if a = 0 then NaN else if a > 0 then PosInf else NegInf)"
| "js_mul (Fin a) NegInf = (if a = 0 then NaN else if a > 0 then NegInf else PosInf)"
| "js_mul PosInf (Fin b) = (if b = 0 then NaN else if b > 0 then PosInf else NegInf)"
| "js_mul NegInf (Fin b) = (if b = 0 then NaN else if b > 0 then NegInf else PosInf)"
| "js_mul PosInf PosInf = PosInf"
| "js_mul PosInf NegInf = NegInf"
| "js_mul NegInf PosInf = NegInf"
| "js_mul NegInf NegInf = PosInf"

text \<open>\<^verbatim>\<open>a + b\<close>\<close>

fun js_add :: "jsnum \<Rightarrow> jsnum \<Rightarrow> jsnum" where
  "js_add NaN _ = NaN"
| "js_add _ NaN = NaN"
| "js_add (Fin a) (Fin b) = roundDouble (a + b)"
| "js_add PosInf NegInf = NaN"
| "js_add NegInf PosInf = NaN"
| "js_add PosInf _ = PosInf"
| "js_add NegInf _ = NegInf"
| "js_add (Fin a) PosInf = PosInf"
| "js_add (Fin a) NegInf = NegInf"

text \<open>\<^verbatim>\<open>a > b\<close>: false as soon as one side is NaN.\<close>

fun js_gt :: "jsnum \<Rightarrow> jsnum \<Rightarrow> bool" where
  "js_gt NaN _ = False"
| "js_gt _ NaN = False"
| "js_gt (Fin a) (Fin b) = (a > b)"
| "js_gt PosInf PosInf = False"
| "js_gt PosInf _ = True"
| "js_gt NegInf _ = False"
| "js_gt (Fin a) PosInf = False"
| "js_gt (Fin a) NegInf = True"

text \<open>
  The results of the built-ins a request handler calls: \<^verbatim>\<open>Number(s)\<close> on a string,
  \<^verbatim>\<open>new Date(s).getTime()\<close>, the value \<^verbatim>\<open>randomUUID()\<close> returns during the request and
  the clock read by \<^verbatim>\<open>new Date()\<close>.
\<close>

record runtime =
  Number :: "string \<Rightarrow> jsnum"
  getTime :: "string \<Rightarrow> int"
  randomUUID :: string
  now :: nat

subsection \<open>server/storage.ts: MemStorage\<close>

record storage =
  users :: "(string \<times> User) list"
  rooms :: "(string \<times> Room) list"
  bookings :: "(string \<times> Booking) list"

record filters =
  f_roomId :: "string option"
  f_facultyId :: "string option"
  f_status :: "string option"
  f_dateFrom :: "string option"
  f_dateTo :: "string option"

text \<open>
  \<^verbatim>\<open>if (filters.x) bookings = bookings.filter(b => p(b, filters.x))\<close>: an absent or empty
  filter value is falsy and filters nothing.
\<close>

definition applyFilter ::
  "string option \<Rightarrow> (Booking \<Rightarrow> string \<Rightarrow> bool) \<Rightarrow> Booking list \<Rightarrow> Booking list" where
  "applyFilter v p bs =
     (case v of None \<Rightarrow> bs | Some s \<Rightarrow> if s = [] then bs else filter (\<lambda>b. p b s) bs)"

text \<open>
  The join of \<^verbatim>\<open>getBookings\<close> and \<^verbatim>\<open>getBooking\<close>: the booking with its room and the
  three copied fields of its owner, or nothing when either lookup fails.
\<close>

definition withDetails :: "storage \<Rightarrow> Booking \<Rightarrow> BookingWithDetails option" where
  "withDetails st booking =
     (case map_of (rooms st) (roomId booking) of
        None \<Rightarrow> None
      | Some rm \<Rightarrow>
          (case map_of (users st) (facultyId booking) of
             None \<Rightarrow> None
           | Some fac \<Rightarrow>
               Some (Booking.extend booking
                 (BookingWithDetails.fields rm
                    \<lparr>f_id = u_id fac, f_name = u_name fac, f_email = u_email fac\<rparr>))))"

definition getBookings :: "runtime \<Rightarrow> storage \<Rightarrow> filters option \<Rightarrow> BookingWithDetails list" where
  "getBookings env st fo =
     (let all = map snd (bookings st);
          selected =
            (case fo of
               None \<Rightarrow> all
             | Some f \<Rightarrow>
                 applyFilter (f_dateTo f) (\<lambda>b s. date b \<le> s)
                   (applyFilter (f_dateFrom f) (\<lambda>b s. date b \<ge> s)
                     (applyFilter (f_status f) (\<lambda>b s. status_str (status b) = s)
                       (applyFilter (f_facultyId f) (\<lambda>b s. facultyId b = s)
                         (applyFilter (f_roomId f) (\<lambda>b s. roomId b = s) all)))));
          bookingsWithDetails = List.map_filter (withDetails st) selected
      in sort_key (\<lambda>b. getTime env (date b @ '' '' @ startTime b)) bookingsWithDetails)"

definition getBooking :: "storage \<Rightarrow> string \<Rightarrow> BookingWithDetails option" where
  "getBooking st ident =
     (case map_of (bookings st) ident of
        None \<Rightarrow> None
      | Some booking \<Rightarrow> withDetails st booking)"


subsection \<open>shared/schema.ts: the insert schemas\<close>

text \<open>
  A request body is a JSON object with scalar members: a map from member names to
  values. Numbers are integers here (a fraction fails the integer column's schema).
\<close>

datatype json = JNull | JBool bool | JNum int | JStr string

type_synonym body = "string \<rightharpoonup> json"

text \<open>A member that may be missing (\<^verbatim>\<open>undefined\<close>) or \<^verbatim>\<open>null\<close>.\<close>

datatype 'a nullish = Undefined | Null | Val 'a

text \<open>
  \<^verbatim>\<open>InsertUser\<close>: the user columns without \<^verbatim>\<open>id\<close> and \<^verbatim>\<open>createdAt\<close>; the role has a
  default and is optional.
\<close>

record InsertUser =
  iu_username :: string
  iu_email :: string
  iu_password :: string
  iu_name :: string
  iu_role :: "role option"

text \<open>\<^verbatim>\<open>InsertRoom\<close>: the room columns without \<^verbatim>\<open>id\<close> and \<^verbatim>\<open>createdAt\<close>.\<close>

record InsertRoom =
  ir_name :: string
  ir_capacity :: int

text \<open>
  \<^verbatim>\<open>InsertBooking\<close>: the booking columns without \<^verbatim>\<open>id\<close> and \<^verbatim>\<open>createdAt\<close>. Columns
  with a default or without \<^verbatim>\<open>notNull\<close> are optional.
\<close>

record InsertBooking =
  i_roomId :: string
  i_facultyId :: string
  i_courseName :: string
  i_date :: string
  i_startTime :: string
  i_endTime :: string
  i_expectedAttendance :: "int nullish"
  i_specialRequirements :: "string nullish"
  i_status :: "status option"

text \<open>\<^verbatim>\<open>Partial<InsertBooking>\<close>: every member optional.\<close>

record PartialInsertBooking =
  p_roomId :: "string option"
  p_facultyId :: "string option"
  p_courseName :: "string option"
  p_date :: "string option"
  p_startTime :: "string option"
  p_endTime :: "string option"
  p_expectedAttendance :: "int nullish"
  p_specialRequirements :: "string nullish"
  p_status :: "status option"

text \<open>
  The member schemas. The outer \<open>option\<close> is the outcome of validation: \<open>None\<close> is a
  validation issue (\<^verbatim>\<open>parse\<close> throws a ZodError), \<open>Some\<close> the parsed member.
\<close>

fun zString :: "json option \<Rightarrow> string option" where
  "zString (Some (JStr s)) = Some s"
| "zString _ = None"

fun zStringNullish :: "json option \<Rightarrow> string nullish option" where
  "zStringNullish None = Some Undefined"
| "zStringNullish (Some JNull) = Some Null"
| "zStringNullish (Some (JStr s)) = Some (Val s)"
| "zStringNullish _ = None"

fun zIntNullish :: "json option \<Rightarrow> int nullish option" where
  "zIntNullish None = Some Undefined"
| "zIntNullish (Some JNull) = Some Null"
| "zIntNullish (Some (JNum n)) = Some (Val n)"
| "zIntNullish _ = None"

fun zStatusOptional :: "json option \<Rightarrow> status option option" where
  "zStatusOptional None = Some None"
| "zStatusOptional (Some (JStr s)) =
     (if s = ''pending'' then Some (Some Pending)
      else if s = ''confirmed'' then Some (Some Confirmed)
      else if s = ''cancelled'' then Some (Some Cancelled)
      else None)"
| "zStatusOptional _ = None"

text \<open>\<^verbatim>\<open>s.split(':')\<close>: the pieces between the separators, one piece for a string without any.\<close>

fun split :: "char \<Rightarrow> string \<Rightarrow> string list" where
  "split sep [] = [[]]"
| "split sep (c # cs) =
     (if c = sep then [] # split sep cs
      else (case split sep cs of [] \<Rightarrow> [[c]] | p # ps \<Rightarrow> (c # p) # ps))"

text \<open>
  An element of a destructured array where it is used as a number: a missing element is
  \<^verbatim>\<open>undefined\<close>, which arithmetic turns into NaN.
\<close>

definition elem :: "jsnum list \<Rightarrow> nat \<Rightarrow> jsnum" where
  "elem xs i = (if i < length xs then xs ! i else NaN)"

text \<open>
  The refinement of \<^verbatim>\<open>insertBookingSchema\<close>, on the two members it reads (\<open>None\<close> for a
  missing one). An empty string is falsy, as a missing member is.
\<close>

definition endAfterStart :: "runtime \<Rightarrow> string option \<Rightarrow> string option \<Rightarrow> bool" where
  "endAfterStart env st en =
     (case (st, en) of
        (Some s, Some e) \<Rightarrow>
          if s \<noteq> [] \<and> e \<noteq> [] then
            (let sp = map (Number env) (split CHR '':'' s);
                 ep = map (Number env) (split CHR '':'' e);
                 startMinutes = js_add (js_mul (elem sp 0) (Fin 60)) (elem sp 1);
                 endMinutes = js_add (js_mul (elem ep 0) (Fin 60)) (elem ep 1)
             in js_gt endMinutes startMinutes)
          else True
      | _ \<Rightarrow> True)"

text \<open>\<^verbatim>\<open>insertRoomSchema.parse\<close>; unknown members are dropped.\<close>

definition insertRoomSchema_parse :: "body \<Rightarrow> InsertRoom option" where
  "insertRoomSchema_parse b =
     (case b ''name'' of
        Some (JStr n) \<Rightarrow>
          (case b ''capacity'' of
             Some (JNum c) \<Rightarrow> Some \<lparr>ir_name = n, ir_capacity = c\<rparr>
           | _ \<Rightarrow> None)
      | _ \<Rightarrow> None)"

text \<open>\<^verbatim>\<open>insertBookingSchema.parse\<close>: the member schemas, then the refinement.\<close>

definition insertBookingSchema_parse :: "runtime \<Rightarrow> body \<Rightarrow> InsertBooking option" where
  "insertBookingSchema_parse env b =
     Option.bind (zString (b ''roomId'')) (\<lambda>r.
     Option.bind (zString (b ''facultyId'')) (\<lambda>f.
     Option.bind (zString (b ''courseName'')) (\<lambda>c.
     Option.bind (zString (b ''date'')) (\<lambda>d.
     Option.bind (zString (b ''startTime'')) (\<lambda>s.
     Option.bind (zString (b ''endTime'')) (\<lambda>e.
     Option.bind (zIntNullish (b ''expectedAttendance'')) (\<lambda>a.
     Option.bind (zStringNullish (b ''specialRequirements'')) (\<lambda>q.
     Option.bind (zStatusOptional (b ''status'')) (\<lambda>t.
       if endAfterStart env (Some s) (Some e)
       then Some \<lparr>i_roomId = r, i_facultyId = f, i_courseName = c, i_date = d,
                  i_startTime = s, i_endTime = e, i_expectedAttendance = a,
                  i_specialRequirements = q, i_status = t\<rparr>
       else None)))))))))"

text \<open>What a \<^verbatim>\<open>try\<close> block of a handler can catch.\<close>

datatype exn = ZodError | TypeError

text \<open>
  \<^verbatim>\<open>insertBookingSchema.partial().parse(req.body)\<close>. \<^verbatim>\<open>insertBookingSchema\<close> is what
  \<^verbatim>\<open>.refine\<close> returns, a schema with an effect (ZodEffects), and that has no method
  \<^verbatim>\<open>partial\<close>: the call throws a TypeError before any body is parsed.
\<close>

definition insertBookingSchema_partial_parse :: "body \<Rightarrow> exn + PartialInsertBooking" where
  "insertBookingSchema_partial_parse b = Inl TypeError"

subsection \<open>server/storage.ts: the writers\<close>

definition createUser :: "runtime \<Rightarrow> storage \<Rightarrow> InsertUser \<Rightarrow> User \<times> storage" where
  "createUser env st insertUser =
     (let ident = randomUUID env;
          user = \<lparr>u_id = ident, u_username = iu_username insertUser,
                  u_email = iu_email insertUser, u_password = iu_password insertUser,
                  u_name = iu_name insertUser,
                  u_role = (case iu_role insertUser of Some r \<Rightarrow> r | None \<Rightarrow> Student),
                  u_createdAt = now env\<rparr>
      in (user, st\<lparr>users := AList.update ident user (users st)\<rparr>))"

definition createRoom :: "runtime \<Rightarrow> storage \<Rightarrow> InsertRoom \<Rightarrow> Room \<times> storage" where
  "createRoom env st insertRoom =
     (let ident = randomUUID env;
          rm = \<lparr>r_id = ident, r_name = ir_name insertRoom,
                r_capacity = ir_capacity insertRoom, r_createdAt = now env\<rparr>
      in (rm, st\<lparr>rooms := AList.update ident rm (rooms st)\<rparr>))"

text \<open>\<^verbatim>\<open>Map.delete\<close> answers whether the key was there.\<close>

definition deleteRoom :: "storage \<Rightarrow> string \<Rightarrow> bool \<times> storage" where
  "deleteRoom st ident =
     (map_of (rooms st) ident \<noteq> None, st\<lparr>rooms := AList.delete ident (rooms st)\<rparr>)"

text \<open>\<^verbatim>\<open>x ?? null\<close>\<close>

fun orNull :: "'a nullish \<Rightarrow> 'a option" where
  "orNull (Val v) = Some v"
| "orNull _ = None"

definition createBooking :: "runtime \<Rightarrow> storage \<Rightarrow> InsertBooking \<Rightarrow> Booking \<times> storage" where
  "createBooking env st insertBooking =
     (let ident = randomUUID env;
          booking =
            \<lparr>b_id = ident,
             roomId = i_roomId insertBooking,
             facultyId = i_facultyId insertBooking,
             courseName = i_courseName insertBooking,
             date = i_date insertBooking,
             startTime = i_startTime insertBooking,
             endTime = i_endTime insertBooking,
             expectedAttendance = orNull (i_expectedAttendance insertBooking),
             specialRequirements = orNull (i_specialRequirements insertBooking),
             status = (case i_status insertBooking of Some s \<Rightarrow> s | None \<Rightarrow> Pending),
             createdAt = now env\<rparr>
      in (booking, st\<lparr>bookings := AList.update ident booking (bookings st)\<rparr>))"

text \<open>\<^verbatim>\<open>{ ...existing, ...bookingUpdate }\<close>: a member of the update replaces the column.\<close>

fun spreadNullish :: "'a option \<Rightarrow> 'a nullish \<Rightarrow> 'a option" where
  "spreadNullish old Undefined = old"
| "spreadNullish old Null = None"
| "spreadNullish old (Val v) = Some v"

definition spread :: "Booking \<Rightarrow> PartialInsertBooking \<Rightarrow> Booking" where
  "spread existing bookingUpdate =
     existing
       \<lparr>roomId := case_option (roomId existing) id (p_roomId bookingUpdate),
        facultyId := case_option (facultyId existing) id (p_facultyId bookingUpdate),
        courseName := case_option (courseName existing) id (p_courseName bookingUpdate),
        date := case_option (date existing) id (p_date bookingUpdate),
        startTime := case_option (startTime existing) id (p_startTime bookingUpdate),
        endTime := case_option (endTime existing) id (p_endTime bookingUpdate),
        expectedAttendance :=
          spreadNullish (expectedAttendance existing) (p_expectedAttendance bookingUpdate),
        specialRequirements :=
          spreadNullish (specialRequirements existing) (p_specialRequirements bookingUpdate),
        status := case_option (status existing) id (p_status bookingUpdate)\<rparr>"

definition updateBooking ::
  "storage \<Rightarrow> string \<Rightarrow> PartialInsertBooking \<Rightarrow> Booking option \<times> storage" where
  "updateBooking st ident bookingUpdate =
     (case map_of (bookings st) ident of
        None \<Rightarrow> (None, st)
      | Some existing \<Rightarrow>
          (let updated = spread existing bookingUpdate
           in (Some updated, st\<lparr>bookings := AList.update ident updated (bookings st)\<rparr>)))"

subsection \<open>server/routes.ts: the handlers\<close>

text \<open>
  A handler takes the runtime values, the store, the session's user (\<open>None\<close> when
  \<^verbatim>\<open>req.isAuthenticated()\<close> is false) and the request; it returns the response and the
  store it leaves. \<open>Inl\<close> is a response with an error status. A \<^verbatim>\<open>catch\<close> answers 400
  to a ZodError and 500 to any other exception. The in-memory store throws nothing, and
  the \<^verbatim>\<open>parse\<close> of the POST handlers throws nothing but a ZodError, so their status
  500 never arises.
\<close>

datatype http_error =
  BadRequest400 | Unauthorized401 | Forbidden403 | NotFound404 | Conflict409 |
  ServerError500

text \<open>
  The callback of \<^verbatim>\<open>existingBookings.some\<close> in POST /api/bookings: whether the new
  booking collides with one existing booking.
\<close>

definition conflicts :: "InsertBooking \<Rightarrow> BookingWithDetails \<Rightarrow> bool" where
  "conflicts bookingData existing =
     (if status existing = Cancelled then False
      else
        (let existingStart = startTime existing;
             existingEnd = endTime existing;
             newStart = i_startTime bookingData;
             newEnd = i_endTime bookingData
         in (newStart \<ge> existingStart \<and> newStart < existingEnd) \<or>
            (newEnd > existingStart \<and> newEnd \<le> existingEnd) \<or>
            (newStart \<le> existingStart \<and> newEnd \<ge> existingEnd)))"

definition hasConflict :: "InsertBooking \<Rightarrow> BookingWithDetails list \<Rightarrow> bool" where
  "hasConflict bookingData existingBookings = list_ex (conflicts bookingData) existingBookings"

text \<open>POST /api/rooms\<close>

definition post_rooms ::
  "runtime \<Rightarrow> storage \<Rightarrow> User option \<Rightarrow> body \<Rightarrow> (http_error + Room) \<times> storage" where
  "post_rooms env st user b =
     (case user of
        None \<Rightarrow> (Inl Forbidden403, st)
      | Some u \<Rightarrow>
          if u_role u \<noteq> Admin then (Inl Forbidden403, st)
          else
            (case insertRoomSchema_parse b of
               None \<Rightarrow> (Inl BadRequest400, st)
             | Some roomData \<Rightarrow>
                 (let (rm, st') = createRoom env st roomData in (Inr rm, st'))))"

text \<open>DELETE /api/rooms/:id\<close>

definition delete_rooms ::
  "storage \<Rightarrow> User option \<Rightarrow> string \<Rightarrow> (http_error + unit) \<times> storage" where
  "delete_rooms st user ident =
     (case user of
        None \<Rightarrow> (Inl Forbidden403, st)
      | Some u \<Rightarrow>
          if u_role u \<noteq> Admin then (Inl Forbidden403, st)
          else
            (let (deleted, st') = deleteRoom st ident
             in if \<not> deleted then (Inl NotFound404, st') else (Inr (), st')))"

text \<open>
  POST /api/bookings. The body is parsed with its \<^verbatim>\<open>facultyId\<close> member set to the
  session user's id.
\<close>

definition post_bookings ::
  "runtime \<Rightarrow> storage \<Rightarrow> User option \<Rightarrow> body \<Rightarrow> (http_error + Booking) \<times> storage" where
  "post_bookings env st user b =
     (case user of
        None \<Rightarrow> (Inl Forbidden403, st)
      | Some u \<Rightarrow>
          if u_role u \<noteq> Faculty then (Inl Forbidden403, st)
          else
            (case insertBookingSchema_parse env (b(''facultyId'' \<mapsto> JStr (u_id u))) of
               None \<Rightarrow> (Inl BadRequest400, st)
             | Some bookingData \<Rightarrow>
                 (let existingBookings =
                        getBookings env st
                          (Some \<lparr>f_roomId = Some (i_roomId bookingData),
                                 f_facultyId = None,
                                 f_status = None,
                                 f_dateFrom = Some (i_date bookingData),
                                 f_dateTo = Some (i_date bookingData)\<rparr>)
                  in if hasConflict bookingData existingBookings then (Inl Conflict409, st)
                     else
                       (let (booking, st') = createBooking env st bookingData
                        in (Inr booking, st')))))"

text \<open>PUT /api/bookings/:id\<close>

definition put_bookings ::
  "storage \<Rightarrow> User option \<Rightarrow> string \<Rightarrow> body \<Rightarrow> (http_error + Booking option) \<times> storage" where
  "put_bookings st user ident b =
     (case user of
        None \<Rightarrow> (Inl Unauthorized401, st)
      | Some u \<Rightarrow>
          (case getBooking st ident of
             None \<Rightarrow> (Inl NotFound404, st)
           | Some booking \<Rightarrow>
               if u_role u \<noteq> Admin \<and> facultyId booking \<noteq> u_id u then (Inl Forbidden403, st)
               else
                 (case insertBookingSchema_partial_parse b of
                    Inl ZodError \<Rightarrow> (Inl BadRequest400, st)
                  | Inl TypeError \<Rightarrow> (Inl ServerError500, st)
                  | Inr parsed \<Rightarrow>
                      (let updateData =
                             (if u_role u \<noteq> Admin then parsed\<lparr>p_facultyId := None\<rparr>
                              else parsed);
                           (updatedBooking, st') = updateBooking st ident updateData
                       in (Inr updatedBooking, st')))))"

text \<open>The update DELETE /api/bookings/:id sends: \<^verbatim>\<open>{ status: "cancelled" }\<close>.\<close>

definition cancelUpdate :: PartialInsertBooking where
  "cancelUpdate =
     \<lparr>p_roomId = None, p_facultyId = None, p_courseName = None, p_date = None,
      p_startTime = None, p_endTime = None, p_expectedAttendance = Undefined,
      p_specialRequirements = Undefined, p_status = Some Cancelled\<rparr>"

text \<open>DELETE /api/bookings/:id\<close>

definition delete_bookings ::
  "storage \<Rightarrow> User option \<Rightarrow> string \<Rightarrow> (http_error + unit) \<times> storage" where
  "delete_bookings st user ident =
     (case user of
        None \<Rightarrow> (Inl Unauthorized401, st)
      | Some u \<Rightarrow>
          (case getBooking st ident of
             None \<Rightarrow> (Inl NotFound404, st)
           | Some booking \<Rightarrow>
               if u_role u \<noteq> Admin \<and> facultyId booking \<noteq> u_id u then (Inl Forbidden403, st)
               else
                 (let (updatedBooking, st') = updateBooking st ident cancelUpdate
                  in (Inr (), st'))))"

subsection \<open>Notions the properties are stated with\<close>

text \<open>
  Two bookings collide: same room, same date, neither cancelled, and each starts before
  the other ends.
\<close>

definition overlapping :: "Booking \<Rightarrow> Booking \<Rightarrow> bool" where
  "overlapping a b =
     (roomId a = roomId b \<and> date a = date b \<and>
      status a \<noteq> Cancelled \<and> status b \<noteq> Cancelled \<and>
      startTime a < endTime b \<and> endTime a > startTime b)"

text \<open>No two bookings stored under different ids collide.\<close>

definition noOverlap :: "storage \<Rightarrow> bool" where
  "noOverlap st =
     list_all
       (\<lambda>(k1, a). list_all (\<lambda>(k2, b). \<not> (k1 \<noteq> k2 \<and> overlapping a b)) (bookings st))
       (bookings st)"

text \<open>What the readers copy from a user: id, name and email.\<close>

definition ownerData :: "User \<Rightarrow> FacultyInfo" where
  "ownerData u = \<lparr>f_id = u_id u, f_name = u_name u, f_email = u_email u\<rparr>"

text \<open>
  Two stores with the same rooms and bookings whose users, key by key, agree on id, name
  and email; they may differ in every password, username, role and creation time.
\<close>

definition sameOwnerData :: "storage \<Rightarrow> storage \<Rightarrow> bool" where
  "sameOwnerData st1 st2 =
     (rooms st1 = rooms st2 \<and> bookings st1 = bookings st2 \<and>
      map (\<lambda>(k, u). (k, ownerData u)) (users st1) =
      map (\<lambda>(k, u). (k, ownerData u)) (users st2))"

text \<open>A time of day as the zero-padded string HH:MM.\<close>

definition pad2 :: "nat \<Rightarrow> string" where
  "pad2 n = [char_of (48 + n div 10), char_of (48 + n mod 10)]"

definition hhmm :: "nat \<Rightarrow> nat \<Rightarrow> string" where
  "hhmm h m = pad2 h @ '':'' @ pad2 m"

subsection \<open>A small store and runtime for running the handlers\<close>

text \<open>
  \<^verbatim>\<open>Number\<close> on the strings the examples use: a string of decimal digits is the double
  nearest to its value, the empty string is 0, a string with another character is NaN.
\<close>

fun digitVal :: "char \<Rightarrow> nat option" where
  "digitVal c = (if CHR ''0'' \<le> c \<and> c \<le> CHR ''9'' then Some (of_char c - 48) else None)"

fun decimalFrom :: "int \<Rightarrow> string \<Rightarrow> int option" where
  "decimalFrom acc [] = Some acc"
| "decimalFrom acc (c # cs) =
     (case digitVal c of None \<Rightarrow> None | Some d \<Rightarrow> decimalFrom (acc * 10 + int d) cs)"

definition digitsNumber :: "string \<Rightarrow> jsnum" where
  "digitsNumber s = (case decimalFrom 0 s of None \<Rightarrow> NaN | Some n \<Rightarrow> roundDouble (of_int n))"

definition testRuntime :: "string \<Rightarrow> runtime" where
  "testRuntime ident =
     \<lparr>Number = digitsNumber, getTime = (\<lambda>s. 0), randomUUID = ident, now = 0\<rparr>"

definition alice :: User where
  "alice = \<lparr>u_id = ''u1'', u_username = ''alice'', u_email = ''alice@example.org'',
             u_password = ''hash1'', u_name = ''Alice'', u_role = Faculty, u_createdAt = 0\<rparr>"

definition root :: User where
  "root = \<lparr>u_id = ''u0'', u_username = ''root'', u_email = ''root@example.org'',
            u_password = ''hash0'', u_name = ''Root'', u_role = Admin, u_createdAt = 0\<rparr>"

definition roomA101 :: Room where
  "roomA101 = \<lparr>r_id = ''r1'', r_name = ''Room A101'', r_capacity = 30, r_createdAt = 0\<rparr>"

definition store0 :: storage where
  "store0 = \<lparr>users = [(''u0'', root), (''u1'', alice)], rooms = [(''r1'', roomA101)],
              bookings = []\<rparr>"

text \<open>A booking request for room r1 on 2024-01-10.\<close>

definition slot :: "string \<Rightarrow> string \<Rightarrow> body" where
  "slot s e =
     [''roomId'' \<mapsto> JStr ''r1'', ''courseName'' \<mapsto> JStr ''CS101'',
      ''date'' \<mapsto> JStr ''2024-01-10'', ''startTime'' \<mapsto> JStr s, ''endTime'' \<mapsto> JStr e]"

text \<open>The booking the first request creates, and the store that holds it.\<close>

definition booking1 :: Booking where
  "booking1 =
     \<lparr>b_id = ''b1'', roomId = ''r1'', facultyId = ''u1'', courseName = ''CS101'',
      date = ''2024-01-10'', startTime = ''09:00'', endTime = ''10:00'',
      expectedAttendance = None, specialRequirements = None, status = Pending,
      createdAt = 0\<rparr>"

definition store1 :: storage where
  "store1 = store0\<lparr>bookings := [(''b1'', booking1)]\<rparr>"

text \<open>A parsed request for 09:00 to 10:00 and a stored booking from 10:00 to 11:00.\<close>

definition nineToTen :: InsertBooking where
  "nineToTen =
     \<lparr>i_roomId = ''r1'', i_facultyId = ''u1'', i_courseName = ''CS101'',
      i_date = ''2024-01-10'', i_startTime = ''09:00'', i_endTime = ''10:00'',
      i_expectedAttendance = Undefined, i_specialRequirements = Undefined,
      i_status = None\<rparr>"

definition tenToEleven :: BookingWithDetails where
  "tenToEleven =
     \<lparr>b_id = ''b2'', roomId = ''r1'', facultyId = ''u1'', courseName = ''CS102'',
      date = ''2024-01-10'', startTime = ''10:00'', endTime = ''11:00'',
      expectedAttendance = None, specialRequirements = None, status = Pending,
      createdAt = 0, room = roomA101,
      faculty = \<lparr>f_id = ''u1'', f_name = ''Alice'', f_email = ''alice@example.org''\<rparr>\<rparr>"

text \<open>The same booking with its room and owner, as the readers return it.\<close>

definition booking1Details :: BookingWithDetails where
  "booking1Details =
     \<lparr>b_id = ''b1'', roomId = ''r1'', facultyId = ''u1'', courseName = ''CS101'',
      date = ''2024-01-10'', startTime = ''09:00'', endTime = ''10:00'',
      expectedAttendance = None, specialRequirements = None, status = Pending,
      createdAt = 0, room = roomA101,
      faculty = \<lparr>f_id = ''u1'', f_name = ''Alice'', f_email = ''alice@example.org''\<rparr>\<rparr>"

text \<open>The same store with other passwords, usernames and roles.\<close>

definition storeOtherSecrets :: storage where
  "storeOtherSecrets =
     store1\<lparr>users :=
       [(''u0'', root\<lparr>u_password := ''changed0'', u_role := Student\<rparr>),
        (''u1'', alice\<lparr>u_password := ''changed1'', u_username := ''al''\<rparr>)]\<rparr>"

text \<open>A second booking, 10:00 to 11:00, and a request to move it to 09:30.\<close>

definition booking2 :: Booking where
  "booking2 = booking1\<lparr>b_id := ''b2'', startTime := ''10:00'', endTime := ''11:00''\<rparr>"

definition store2 :: storage where
  "store2 = store0\<lparr>bookings := [(''b1'', booking1), (''b2'', booking2)]\<rparr>"

definition moveTo0930 :: body where
  "moveTo0930 = [''startTime'' \<mapsto> JStr ''09:30'', ''endTime'' \<mapsto> JStr ''11:00'']"

text \<open>An update that names a status only.\<close>

definition statusUpdate :: "status \<Rightarrow> PartialInsertBooking" where
  "statusUpdate s =
     \<lparr>p_roomId = None, p_facultyId = None, p_courseName = None, p_date = None,
      p_startTime = None, p_endTime = None, p_expectedAttendance = Undefined,
      p_specialRequirements = Undefined, p_status = Some s\<rparr>"

text \<open>
  Bookings whose end is not after their start and that are stored all the same: one
  with an empty end time, one with hours beyond the exact range of the doubles.
\<close>

definition bookingNoEnd :: Booking where
  "bookingNoEnd = booking1\<lparr>endTime := []\<rparr>"

definition storeNoEnd :: storage where
  "storeNoEnd = store0\<lparr>bookings := [(''b1'', bookingNoEnd)]\<rparr>"

definition bookingBigHours :: Booking where
  "bookingBigHours =
     booking1\<lparr>startTime := ''5000000000000009:00'', endTime := ''5000000000000008:59''\<rparr>"

definition storeBigHours :: storage where
  "storeBigHours = store0\<lparr>bookings := [(''b1'', bookingBigHours)]\<rparr>"

text \<open>The first booking cancelled, and confirmed.\<close>

definition storeCancelled :: storage where
  "storeCancelled = store0\<lparr>bookings := [(''b1'', booking1\<lparr>status := Cancelled\<rparr>)]\<rparr>"

definition storeConfirmed :: storage where
  "storeConfirmed = store0\<lparr>bookings := [(''b1'', booking1\<lparr>status := Confirmed\<rparr>)]\<rparr>"

text \<open>A booking for a room id the store does not have, and the first booking without its room.\<close>

definition ghostInsert :: InsertBooking where
  "ghostInsert =
     \<lparr>i_roomId = ''r9'', i_facultyId = ''u1'', i_courseName = ''CS101'',
      i_date = ''2024-01-10'', i_startTime = ''09:00'', i_endTime = ''10:00'',
      i_expectedAttendance = Undefined, i_specialRequirements = Undefined,
      i_status = None\<rparr>"

definition ghostBooking :: Booking where
  "ghostBooking = booking1\<lparr>roomId := ''r9''\<rparr>"

definition storeGhost :: storage where
  "storeGhost = store0\<lparr>bookings := [(''b1'', ghostBooking)]\<rparr>"

definition ghostBooking2 :: Booking where
  "ghostBooking2 = ghostBooking\<lparr>b_id := ''b2''\<rparr>"

definition storeGhost2 :: storage where
  "storeGhost2 = store0\<lparr>bookings := [(''b1'', ghostBooking), (''b2'', ghostBooking2)]\<rparr>"

definition storeNoRoom :: storage where
  "storeNoRoom = store1\<lparr>rooms := []\<rparr>"

text \<open>A second room and a second user with names the store already has.\<close>

definition roomAgain :: Room where
  "roomAgain = \<lparr>r_id = ''r2'', r_name = ''Room A101'', r_capacity = 5, r_createdAt = 0\<rparr>"

definition storeTwoRooms :: storage where
  "storeTwoRooms = store0\<lparr>rooms := [(''r1'', roomA101), (''r2'', roomAgain)]\<rparr>"

definition aliceAgain :: InsertUser where
  "aliceAgain =
     \<lparr>iu_username = ''alice'', iu_email = ''alice@example.org'', iu_password = ''hash2'',
      iu_name = ''Alice B'', iu_role = None\<rparr>"

section \<open>Properties\<close>

subsection \<open>Doubles: integers below \<open>2^53\<close> are computed exactly\<close>

lemma halfEven_of_int: "halfEven (of_int k) = k"
  by (simp add: halfEven_def)

lemma ilog2_of_int:
  assumes "0 < k"
  shows "ilog2 (of_int k) = bitlen k - 1"
proof -
  have "(2::int) ^ nat (bitlen k - 1) \<le> k" using bitlen_bounds[OF assms] by simp
  moreover have "0 \<le> bitlen k - 1"
    using assms bitlen_eq_zero_iff[of k] bitlen_nonneg[of k] by simp
  ultimately have "(2::rat) powi (bitlen k - 1) \<le> of_int k"
    by (simp add: power_int_def)
  then show ?thesis
    unfolding ilog2_def
    by (simp add: compute_bitlen[of 1] Rat.of_int_def[symmetric] quotient_of_int)
qed

lemma roundDouble_of_int:
  assumes "\<bar>k\<bar> < 2 ^ 53"
  shows "roundDouble (of_int k) = Fin (of_int k)"
proof (cases "k = 0")
  case True
  then show ?thesis by (simp add: roundDouble_def)
next
  case False
  define a where "a = \<bar>k\<bar>"
  have a: "0 < a" "a < 2 ^ 53" using False assms by (simp_all add: a_def)
  have bl: "bitlen a \<le> 53"
  proof (rule ccontr)
    assume "\<not> bitlen a \<le> 53"
    then have "nat (bitlen a - 1) \<ge> 53" by simp
    then have "(2::int) ^ 53 \<le> 2 ^ nat (bitlen a - 1)"
      by (intro power_increasing) simp_all
    with bitlen_bounds[OF a(1)] a(2) show False by simp
  qed
  define e where "e = max (ilog2 \<bar>of_int k\<bar> - 52) (- 1074)"
  have abs: "\<bar>of_int k :: rat\<bar> = of_int a" by (simp add: a_def)
  have e: "e \<le> 0" "- 1074 \<le> e"
    unfolding e_def abs ilog2_of_int[OF a(1)] using bl by simp_all
  define m where "m = nat (- e)"
  have p: "(2::rat) powi e = 1 / 2 ^ m"
    using e by (simp add: power_int_def m_def inverse_eq_divide power_one_over)
  have q: "\<bar>of_int k :: rat\<bar> / 2 powi e = of_int (a * 2 ^ m)" unfolding abs p by simp
  have "halfEven (\<bar>of_int k :: rat\<bar> / 2 powi e) = a * 2 ^ m"
    by (simp only: q halfEven_of_int)
  then have v: "of_int (halfEven (\<bar>of_int k :: rat\<bar> / 2 powi e)) * 2 powi e = (of_int a :: rat)"
    by (simp add: p)
  have "(of_int a :: rat) < 2 ^ 53"
    using a(2) by (metis of_int_less_iff of_int_numeral of_int_power)
  also have "\<dots> \<le> 2 ^ 1024" by (intro power_increasing) simp_all
  finally have small: "\<not> (2::rat) powi 1024 \<le> of_int a" by simp
  have "(if (0::rat) < of_int k then of_int a else - of_int a) = (of_int k :: rat)"
    by (simp add: a_def)
  then show ?thesis
    using False small unfolding roundDouble_def Let_def e_def[symmetric] v by simp
qed

lemma roundDouble_numeral:
  "(numeral n :: int) < 2 ^ 53 \<Longrightarrow> roundDouble (numeral n) = Fin (numeral n)"
  using roundDouble_of_int[of "numeral n"] by simp

lemma roundDouble_zero: "roundDouble 0 = Fin 0"
  by (simp add: roundDouble_def)

lemma roundDouble_one: "roundDouble 1 = Fin 1"
  using roundDouble_of_int[of 1] by simp

text \<open>The minutes of a time whose hours and minutes are integers below \<open>2^46\<close>.\<close>

lemma minutes_exact:
  assumes "\<bar>h\<bar> < 2 ^ 46" "\<bar>m\<bar> < 2 ^ 46"
  shows "js_add (js_mul (Fin (of_int h)) (Fin 60)) (Fin (of_int m)) = Fin (of_int (h * 60 + m))"
proof -
  have "\<bar>h * 60\<bar> < 2 ^ 53" using assms(1) by (simp add: abs_mult)
  then have "js_mul (Fin (of_int h)) (Fin 60) = Fin (of_int (h * 60))"
    using roundDouble_of_int[of "h * 60"] by simp
  moreover have "\<bar>h * 60 + m\<bar> < 2 ^ 53" using assms by simp
  ultimately show ?thesis
    using roundDouble_of_int[of "h * 60 + m"] by simp
qed

lemmas handler_defs =
  post_bookings_def put_bookings_def delete_bookings_def post_rooms_def delete_rooms_def
  deleteRoom_def createUser_def
  insertBookingSchema_parse_def insertBookingSchema_partial_parse_def
  insertRoomSchema_parse_def endAfterStart_def elem_def getBookings_def getBooking_def
  applyFilter_def List.map_filter_def hasConflict_def conflicts_def createBooking_def
  createRoom_def updateBooking_def spread_def cancelUpdate_def withDetails_def
  Booking.extend_def BookingWithDetails.fields_def Let_def
  roundDouble_numeral roundDouble_zero roundDouble_one

lemmas fixture_defs =
  testRuntime_def digitsNumber_def store0_def store1_def booking1_def alice_def root_def roomA101_def
  slot_def booking1Details_def booking2_def store2_def moveTo0930_def statusUpdate_def
  bookingNoEnd_def storeNoEnd_def bookingBigHours_def storeBigHours_def storeCancelled_def storeConfirmed_def ghostInsert_def ghostBooking_def
  storeGhost_def storeNoRoom_def roomAgain_def storeTwoRooms_def aliceAgain_def
  ghostBooking2_def storeGhost2_def storeOtherSecrets_def

subsection \<open>The conflict test\<close>

text \<open>
  C2. For a new booking and an existing booking whose start is before their end, the
  three-clause test of POST /api/bookings holds exactly when the existing booking is not
  cancelled, the new start is before the existing end and the new end is after the
  existing start. Two intervals that only touch (the new end is the existing start, or
  the new start is the existing end) do not conflict. The order is the one the code
  compares with, the order of strings, which on zero-padded HH:MM times is the order of
  the minutes since midnight.
\<close>

theorem conflicts_iff_overlap:
  assumes "i_startTime bookingData < i_endTime bookingData"
    and "startTime existing < endTime existing"
  shows "(conflicts bookingData existing \<longleftrightarrow>
            status existing \<noteq> Cancelled \<and>
            i_startTime bookingData < endTime existing \<and>
            i_endTime bookingData > startTime existing) \<and>
         (i_endTime bookingData = startTime existing \<or>
          i_startTime bookingData = endTime existing \<longrightarrow>
            \<not> conflicts bookingData existing)"
  using assms unfolding conflicts_def Let_def by auto

theorem conflicts_iff_overlap_witness:
  "i_startTime nineToTen < i_endTime nineToTen \<and>
   startTime tenToEleven < endTime tenToEleven \<and>
   i_endTime nineToTen = startTime tenToEleven \<and>
   \<not> conflicts nineToTen tenToEleven"
  using conflicts_iff_overlap [of nineToTen tenToEleven]
  by (simp add: nineToTen_def tenToEleven_def)

subsection \<open>What an accepted POST /api/bookings creates\<close>

lemma zString_Some: "zString x = Some s \<longleftrightarrow> x = Some (JStr s)"
  by (cases x rule: zString.cases) auto

lemma zStatusOptional_Some:
  "zStatusOptional x = Some t \<Longrightarrow>
     (case x of Some (JStr s) \<Rightarrow> s | _ \<Rightarrow> d) =
     (case t of Some v \<Rightarrow> status_str v | None \<Rightarrow> d)"
  by (cases x rule: zStatusOptional.cases) (auto split: if_splits)

lemma insertBookingSchema_parse_Some:
  assumes "insertBookingSchema_parse env b = Some ins"
  shows "b ''roomId'' = Some (JStr (i_roomId ins))"
    and "b ''facultyId'' = Some (JStr (i_facultyId ins))"
    and "b ''startTime'' = Some (JStr (i_startTime ins))"
    and "b ''endTime'' = Some (JStr (i_endTime ins))"
    and "zStatusOptional (b ''status'') = Some (i_status ins)"
    and "endAfterStart env (Some (i_startTime ins)) (Some (i_endTime ins))"
  using assms unfolding insertBookingSchema_parse_def
  by (auto simp: bind_eq_Some_conv zString_Some split: if_splits)

lemma post_bookings_Inr:
  assumes "post_bookings env st user b = (Inr booking, st')"
  obtains u ins where "user = Some u" "u_role u = Faculty"
    "insertBookingSchema_parse env (b(''facultyId'' \<mapsto> JStr (u_id u))) = Some ins"
    "createBooking env st ins = (booking, st')"
  using assms unfolding post_bookings_def
  by (auto split: option.splits if_splits prod.splits simp: Let_def)

lemma createBooking_stored:
  "createBooking env st ins = (booking, st') \<Longrightarrow>
     map_of (bookings st') (randomUUID env) = Some booking \<and> b_id booking = randomUUID env"
  unfolding createBooking_def by (auto simp: Let_def AList.update_conv')

lemma post1:
  "post_bookings (testRuntime ''b1'') store0 (Some alice) (slot ''09:00'' ''10:00'') =
     (Inr booking1, store1)"
  by (simp add: handler_defs fixture_defs)

text \<open>
  C3, as the code has it. The booking an accepted POST /api/bookings creates and stores
  has the status the request names (pending, confirmed or cancelled), and pending when
  the request names none.
\<close>

theorem post_bookings_status:
  assumes "post_bookings env st user b = (Inr booking, st')"
  shows "status_str (status booking) =
           (case b ''status'' of Some (JStr s) \<Rightarrow> s | _ \<Rightarrow> ''pending'') \<and>
         map_of (bookings st') (b_id booking) = Some booking"
proof -
  from assms obtain u :: User and ins where
    p: "insertBookingSchema_parse env (b(''facultyId'' \<mapsto> JStr (u_id u))) = Some ins"
    and c: "createBooking env st ins = (booking, st')"
    by (rule post_bookings_Inr) blast
  from insertBookingSchema_parse_Some(5)[OF p]
  have t: "zStatusOptional (b ''status'') = Some (i_status ins)" by simp
  have "status booking = (case i_status ins of Some s \<Rightarrow> s | None \<Rightarrow> Pending)"
    using c unfolding createBooking_def by (auto simp: Let_def)
  then have "status_str (status booking) =
      (case i_status ins of Some v \<Rightarrow> status_str v | None \<Rightarrow> ''pending'')"
    by (simp split: option.splits)
  with zStatusOptional_Some[OF t, of "''pending''"] createBooking_stored[OF c]
  show ?thesis by simp
qed

theorem post_bookings_status_witness:
  "post_bookings (testRuntime ''b1'') store0 (Some alice) (slot ''09:00'' ''10:00'') =
     (Inr booking1, store1) \<and>
   status_str (status booking1) = ''pending'' \<and>
   map_of (bookings store1) (b_id booking1) = Some booking1"
  using post_bookings_status [OF post1] post1 by (simp add: slot_def)

text \<open>
  C3, as the specification states it, fails: a faculty request that names the status confirmed is
  accepted, and the booking created and stored is confirmed, not pending.
\<close>

theorem post_bookings_status_counterexample:
  "map_sum id status
     (fst (post_bookings (testRuntime ''b1'') store0 (Some alice)
        ((slot ''09:00'' ''10:00'')(''status'' \<mapsto> JStr ''confirmed'')))) = Inr Confirmed \<and>
   map_option status
     (map_of (bookings (snd (post_bookings (testRuntime ''b1'') store0 (Some alice)
        ((slot ''09:00'' ''10:00'')(''status'' \<mapsto> JStr ''confirmed''))))) ''b1'') =
     Some Confirmed"
  by (simp add: handler_defs fixture_defs)

text \<open>
  C8. Whatever \<^verbatim>\<open>facultyId\<close> a request to POST /api/bookings carries (another user's
  id, a value of another type, or none), the handler answers as it does without it; and
  the booking a faculty user's accepted request creates and stores has that user's id as
  its \<^verbatim>\<open>facultyId\<close>.
\<close>

theorem post_bookings_facultyId:
  "(\<forall>v. post_bookings env st user (b(''facultyId'' := v)) = post_bookings env st user b) \<and>
   (post_bookings env st (Some u) b = (Inr booking, st') \<longrightarrow>
      facultyId booking = u_id u \<and> map_of (bookings st') (b_id booking) = Some booking)"
proof (intro conjI allI impI)
  fix v show "post_bookings env st user (b(''facultyId'' := v)) = post_bookings env st user b"
    by (cases user) (simp_all add: post_bookings_def)
next
  assume a: "post_bookings env st (Some u) b = (Inr booking, st')"
  then obtain u' ins where u: "Some u = Some u'"
    and p: "insertBookingSchema_parse env (b(''facultyId'' \<mapsto> JStr (u_id u'))) = Some ins"
    and c: "createBooking env st ins = (booking, st')"
    by (rule post_bookings_Inr)
  from insertBookingSchema_parse_Some(2)[OF p] u have "i_facultyId ins = u_id u" by simp
  moreover have "facultyId booking = i_facultyId ins"
    using c unfolding createBooking_def by (auto simp: Let_def)
  ultimately show "facultyId booking = u_id u" by simp
  show "map_of (bookings st') (b_id booking) = Some booking"
    using createBooking_stored[OF c] by simp
qed

theorem post_bookings_facultyId_witness:
  "post_bookings (testRuntime ''b1'') store0 (Some alice)
     ((slot ''09:00'' ''10:00'')(''facultyId'' \<mapsto> JStr ''u0'')) = (Inr booking1, store1) \<and>
   facultyId booking1 = u_id alice \<and>
   map_of (bookings store1) (b_id booking1) = Some booking1"
  using post_bookings_facultyId [of "testRuntime ''b1''" store0 "Some alice"
      "slot ''09:00'' ''10:00''" alice booking1 store1] post1
  by simp

subsection \<open>Zero-padded times: the string order is the order of the minutes\<close>

lemma digit_less:
  "a < 10 \<Longrightarrow> b < 10 \<Longrightarrow> (char_of (48 + a) :: char) < char_of (48 + b) \<longleftrightarrow> (a::nat) < b"
  by (simp add: less_char_def)

lemma digit_eq:
  assumes "a < 10" "b < 10"
  shows "(char_of (48 + a) :: char) = char_of (48 + b) \<longleftrightarrow> (a::nat) = b"
proof -
  have "of_char (char_of (48 + a) :: char) = 48 + a"
    and "of_char (char_of (48 + b) :: char) = 48 + b"
    using assms by simp_all
  then show ?thesis by (metis add_left_cancel)
qed

lemma lex_digits:
  fixes x1 y1 x2 y2 :: nat
  assumes "y1 < 10" "y2 < 10"
  shows "(x1 < x2 \<or> x1 = x2 \<and> (y1 < y2 \<or> y1 = y2 \<and> P)) \<longleftrightarrow>
         (10 * x1 + y1 < 10 * x2 + y2 \<or> 10 * x1 + y1 = 10 * x2 + y2 \<and> P)"
  using assms by (cases P) auto

lemma pad2_less:
  assumes "a < 100" "b < 100"
  shows "pad2 a @ s < pad2 b @ t \<longleftrightarrow> a < b \<or> a = b \<and> s < t"
proof -
  have d: "a div 10 < 10" "b div 10 < 10" "a mod 10 < 10" "b mod 10 < 10"
    using assms by auto
  have "pad2 a @ s < pad2 b @ t \<longleftrightarrow>
        a div 10 < b div 10 \<or>
        a div 10 = b div 10 \<and> (a mod 10 < b mod 10 \<or> a mod 10 = b mod 10 \<and> s < t)"
    unfolding pad2_def append_Cons append_Nil Cons_less_Cons
      digit_less[OF d(1,2)] digit_less[OF d(3,4)] digit_eq[OF d(1,2)] digit_eq[OF d(3,4)] ..
  also have "\<dots> \<longleftrightarrow> a < b \<or> a = b \<and> s < t"
    using lex_digits[OF d(3,4), of "a div 10" "b div 10" "s < t"] by simp
  finally show ?thesis .
qed

lemma hhmm_less_iff:
  assumes "h1 < 100" "h2 < 100" "m1 < 60" "m2 < 60"
  shows "hhmm h1 m1 < hhmm h2 m2 \<longleftrightarrow> h1 * 60 + m1 < h2 * 60 + m2"
proof -
  have m: "m1 < 100" "m2 < 100" using assms by auto
  have "hhmm h1 m1 < hhmm h2 m2 \<longleftrightarrow> h1 < h2 \<or> h1 = h2 \<and> m1 < m2"
    using pad2_less[OF m, of "[]" "[]"]
    by (simp add: hhmm_def pad2_less[OF assms(1,2)])
  also have "\<dots> \<longleftrightarrow> h1 * 60 + m1 < h2 * 60 + m2"
    using assms(3,4) by auto
  finally show ?thesis .
qed

lemma hhmm_le_iff:
  assumes "h1 < 100" "h2 < 100" "m1 < 60" "m2 < 60"
  shows "hhmm h1 m1 \<le> hhmm h2 m2 \<longleftrightarrow> h1 * 60 + m1 \<le> h2 * 60 + m2"
  using hhmm_less_iff[OF assms(2,1,4,3)] by (simp add: not_less[symmetric])

text \<open>
  The conflict test on zero-padded times, in minutes since midnight.
\<close>

lemma conflicts_minutes:
  assumes "i_startTime bookingData = hhmm h1 m1" "i_endTime bookingData = hhmm h2 m2"
    and "startTime existing = hhmm h3 m3" "endTime existing = hhmm h4 m4"
    and "h1 < 100" "h2 < 100" "h3 < 100" "h4 < 100"
    and "m1 < 60" "m2 < 60" "m3 < 60" "m4 < 60"
    and "h1 * 60 + m1 < h2 * 60 + m2" and "h3 * 60 + m3 < h4 * 60 + m4"
  shows "conflicts bookingData existing \<longleftrightarrow>
           status existing \<noteq> Cancelled \<and>
           h1 * 60 + m1 < h4 * 60 + m4 \<and> h2 * 60 + m2 > h3 * 60 + m3"
  using assms unfolding conflicts_def Let_def
  by (simp add: hhmm_less_iff hhmm_le_iff) arith

subsection \<open>The refinement of the booking schema\<close>

lemma split_no_sep: "sep \<notin> set s \<Longrightarrow> split sep s = [s]"
  by (induction s) auto

lemma split_two:
  "sep \<notin> set a \<Longrightarrow> sep \<notin> set c \<Longrightarrow> split sep (a @ sep # c) = [a, c]"
  by (induction a) (auto simp: split_no_sep)

lemma endAfterStart_times:
  assumes "CHR '':'' \<notin> set sh \<union> set sm \<union> set eh \<union> set em"
    and "Number env sh = Fin (of_int h1)" "Number env sm = Fin (of_int m1)"
    and "Number env eh = Fin (of_int h2)" "Number env em = Fin (of_int m2)"
    and "\<bar>h1\<bar> < 2 ^ 46" "\<bar>m1\<bar> < 2 ^ 46" "\<bar>h2\<bar> < 2 ^ 46" "\<bar>m2\<bar> < 2 ^ 46"
  shows "endAfterStart env (Some (sh @ CHR '':'' # sm)) (Some (eh @ CHR '':'' # em)) \<longleftrightarrow>
         h2 * 60 + m2 > h1 * 60 + m1"
proof -
  have "endAfterStart env (Some (sh @ CHR '':'' # sm)) (Some (eh @ CHR '':'' # em)) =
      js_gt (js_add (js_mul (Fin (of_int h2)) (Fin 60)) (Fin (of_int m2)))
        (js_add (js_mul (Fin (of_int h1)) (Fin 60)) (Fin (of_int m1)))"
    using assms(1-5)
    by (simp add: endAfterStart_def split_two elem_def
        del: js_mul.simps js_add.simps js_gt.simps)
  also have "\<dots> = ((of_int (h2 * 60 + m2) :: rat) > of_int (h1 * 60 + m1))"
    by (simp only: minutes_exact[OF assms(6,7)] minutes_exact[OF assms(8,9)] js_gt.simps)
  also have "\<dots> = (h2 * 60 + m2 > h1 * 60 + m1)"
    by (simp only: of_int_less_iff)
  finally show ?thesis .
qed

text \<open>
  C6, as the code has it. A request to POST /api/bookings whose start time is \<open>sh:sm\<close>
  and whose end time is \<open>eh:em\<close>, with \<^verbatim>\<open>Number\<close> reading the four parts as the integers
  \<open>h1\<close>, \<open>m1\<close>, \<open>h2\<close>, \<open>m2\<close> below \<open>2^46\<close> in absolute value (as the parts of every time of
  day are; the handler's double arithmetic is then exact), and whose end is not later
  than its start in minutes since midnight (\<open>h2 * 60 + m2 \<le> h1 * 60 + m1\<close>), is never
  accepted and leaves the store as it was; for a faculty user the answer is the
  validation error, status 400.
\<close>

theorem post_bookings_end_not_after_start:
  assumes "b ''startTime'' = Some (JStr (sh @ CHR '':'' # sm))"
    and "b ''endTime'' = Some (JStr (eh @ CHR '':'' # em))"
    and "CHR '':'' \<notin> set sh \<union> set sm \<union> set eh \<union> set em"
    and "Number env sh = Fin (of_int h1)" and "Number env sm = Fin (of_int m1)"
    and "Number env eh = Fin (of_int h2)" and "Number env em = Fin (of_int m2)"
    and "\<bar>h1\<bar> < 2 ^ 46" and "\<bar>m1\<bar> < 2 ^ 46" and "\<bar>h2\<bar> < 2 ^ 46" and "\<bar>m2\<bar> < 2 ^ 46"
    and "h2 * 60 + m2 \<le> h1 * 60 + m1"
  shows "snd (post_bookings env st user b) = st \<and>
         (\<exists>e. fst (post_bookings env st user b) = Inl e) \<and>
         (\<forall>u. user = Some u \<and> u_role u = Faculty \<longrightarrow>
            fst (post_bookings env st user b) = Inl BadRequest400)"
proof -
  have none: "insertBookingSchema_parse env (b(''facultyId'' \<mapsto> v)) = None" for v
  proof (rule ccontr)
    assume "insertBookingSchema_parse env (b(''facultyId'' \<mapsto> v)) \<noteq> None"
    then obtain ins where
      p: "insertBookingSchema_parse env (b(''facultyId'' \<mapsto> v)) = Some ins"
      by auto
    from insertBookingSchema_parse_Some(3,4,6)[OF p] assms(1,2)
    have "endAfterStart env (Some (sh @ CHR '':'' # sm)) (Some (eh @ CHR '':'' # em))"
      by simp
    with endAfterStart_times[OF assms(3-11)] assms(12) show False by simp
  qed
  show ?thesis
    by (cases user) (simp_all add: post_bookings_def none)
qed

theorem post_bookings_end_not_after_start_witness:
  "slot ''09:00'' ''09:00'' ''startTime'' = Some (JStr (''09'' @ CHR '':'' # ''00'')) \<and>
   slot ''09:00'' ''09:00'' ''endTime'' = Some (JStr (''09'' @ CHR '':'' # ''00'')) \<and>
   Number (testRuntime ''b1'') ''09'' = Fin (of_int 9) \<and>
   Number (testRuntime ''b1'') ''00'' = Fin (of_int 0) \<and>
   post_bookings (testRuntime ''b1'') store0 (Some alice) (slot ''09:00'' ''09:00'') =
     (Inl BadRequest400, store0)"
  using post_bookings_end_not_after_start [where b = "slot ''09:00'' ''09:00''"
      and sh = "''09''" and sm = "''00''" and eh = "''09''" and em = "''00''"
      and env = "testRuntime ''b1''" and ?h1.0 = 9 and ?m1.0 = 0 and ?h2.0 = 9 and ?m2.0 = 0
      and st = store0 and user = "Some alice"]
  by (simp add: slot_def testRuntime_def digitsNumber_def alice_def prod_eq_iff
      roundDouble_numeral roundDouble_zero)

text \<open>The two roundings behind the second request below, and the requests.\<close>

lemma floor_numeral_divide:
  "\<lfloor>numeral a / numeral b :: rat\<rfloor> = numeral a div numeral b"
  using floor_divide_of_int_eq[of "numeral a" "numeral b", where ?'a = rat] by simp

lemma big_round:
  "roundDouble 300000000000000540 = Fin 300000000000000512"
  "roundDouble 300000000000000480 = Fin 300000000000000512"
  "roundDouble 300000000000000571 = Fin 300000000000000576"
  "roundDouble 300000000000000512 = Fin 300000000000000512"
  by (simp_all add: roundDouble_def ilog2_def halfEven_def Let_def compute_bitlen
      floor_numeral_divide)

lemma big_digits:
  "digitsNumber ''5000000000000009'' = Fin 5000000000000009"
  "digitsNumber ''5000000000000008'' = Fin 5000000000000008"
  "digitsNumber ''59'' = Fin 59" "digitsNumber ''00'' = Fin 0"
  by (simp_all add: digitsNumber_def roundDouble_numeral roundDouble_zero)

lemma big_split:
  "split CHR '':'' ''5000000000000009:00'' = [''5000000000000009'', ''00'']"
  "split CHR '':'' ''5000000000000008:59'' = [''5000000000000008'', ''59'']"
  by simp_all

lemma big_refine:
  "endAfterStart (testRuntime ident)
     (Some ''5000000000000009:00'') (Some ''5000000000000008:59'')"
  unfolding endAfterStart_def
  by (simp add: big_split big_digits big_round elem_def testRuntime_def
      del: split.simps)

lemma postBigHours:
  "post_bookings (testRuntime ''b1'') store0 (Some alice)
     (slot ''5000000000000009:00'' ''5000000000000008:59'') =
     (Inr bookingBigHours, storeBigHours)"
  by (simp add: post_bookings_def insertBookingSchema_parse_def big_refine
      getBookings_def applyFilter_def List.map_filter_def hasConflict_def createBooking_def
      store0_def alice_def slot_def bookingBigHours_def storeBigHours_def booking1_def
      testRuntime_def[THEN arg_cong, of randomUUID] testRuntime_def[THEN arg_cong, of now]
      Let_def)

lemma postNoEnd:
  "post_bookings (testRuntime ''b1'') store0 (Some alice) (slot ''09:00'' []) =
     (Inr bookingNoEnd, storeNoEnd)"
  by (simp add: handler_defs fixture_defs)

text \<open>
  C6, as the specification states it, fails in two ways. A faculty request with the
  start 09:00 and an empty end time is accepted and stored: the refinement compares
  nothing when a time is the empty string. A faculty request with the start
  5000000000000009:00 and the end 5000000000000008:59, one minute earlier, is accepted
  and stored: both products round to 300000000000000512, and adding the 59 minutes makes
  the end the greater double.
\<close>

theorem post_bookings_end_not_after_start_counterexample:
  "post_bookings (testRuntime ''b1'') store0 (Some alice) (slot ''09:00'' []) =
     (Inr bookingNoEnd, storeNoEnd) \<and>
   map_of (bookings storeNoEnd) ''b1'' = Some bookingNoEnd \<and>
   startTime bookingNoEnd = ''09:00'' \<and> endTime bookingNoEnd = [] \<and>
   post_bookings (testRuntime ''b1'') store0 (Some alice)
     (slot ''5000000000000009:00'' ''5000000000000008:59'') =
     (Inr bookingBigHours, storeBigHours) \<and>
   map_of (bookings storeBigHours) ''b1'' = Some bookingBigHours \<and>
   (5000000000000008 * 60 + 59 :: int) < 5000000000000009 * 60 + 0"
  using postNoEnd postBigHours by (simp add: fixture_defs)

text \<open>
  The same for every pair of zero-padded times, with \<^verbatim>\<open>Number\<close> reading decimal digits.
\<close>

lemma digitVal_digit: "d < 10 \<Longrightarrow> digitVal (char_of (48 + d)) = Some d"
  by (simp add: less_eq_char_def)

lemma Number_pad2: "n < 100 \<Longrightarrow> digitsNumber (pad2 n) = Fin (of_int (int n))"
proof -
  assume n: "n < 100"
  then have d: "n div 10 < 10" "n mod 10 < 10" by auto
  have "int (n div 10) * 10 + int (n mod 10) = int n"
    by presburger
  then have "decimalFrom 0 (pad2 n) = Some (int n)"
    unfolding pad2_def
    by (simp add: digitVal_digit[OF d(1)] digitVal_digit[OF d(2)] del: digitVal.simps)
  moreover have "\<bar>int n\<bar> < 2 ^ 53" using n by simp
  ultimately show ?thesis
    using roundDouble_of_int[of "int n"] by (simp add: digitsNumber_def)
qed

lemma colon_pad2: "n < 100 \<Longrightarrow> CHR '':'' \<notin> set (pad2 n)"
proof -
  assume "n < 100"
  then have d: "n div 10 < 10" "n mod 10 < 10" by auto
  have "d < 10 \<Longrightarrow> char_of (48 + d) \<noteq> CHR '':''" for d :: nat
  proof
    assume "d < 10" "char_of (48 + d) = CHR '':''"
    then have "of_char (char_of (48 + d) :: char) = (of_char CHR '':'' :: nat)" by simp
    with \<open>d < 10\<close> show False by simp
  qed
  from this[OF d(1)] this[OF d(2)] show ?thesis by (auto simp: pad2_def)
qed

lemma post_bookings_hhmm_rejected:
  assumes "b ''startTime'' = Some (JStr (hhmm h1 m1))"
    and "b ''endTime'' = Some (JStr (hhmm h2 m2))"
    and "h1 < 100" "h2 < 100" "m1 < 60" "m2 < 60"
    and "h2 * 60 + m2 \<le> h1 * 60 + m1"
    and "u_role u = Faculty"
  shows "post_bookings (testRuntime ident) st (Some u) b = (Inl BadRequest400, st)"
proof -
  have "insertBookingSchema_parse (testRuntime ident) (b(''facultyId'' \<mapsto> v)) = None" for v
  proof (rule ccontr)
    assume "insertBookingSchema_parse (testRuntime ident) (b(''facultyId'' \<mapsto> v)) \<noteq> None"
    then obtain ins where
      p: "insertBookingSchema_parse (testRuntime ident) (b(''facultyId'' \<mapsto> v)) = Some ins"
      by auto
    have m: "m1 < 100" "m2 < 100" using assms by auto
    from insertBookingSchema_parse_Some(3,4,6)[OF p] assms(1,2)
    have r: "endAfterStart (testRuntime ident) (Some (pad2 h1 @ CHR '':'' # pad2 m1))
            (Some (pad2 h2 @ CHR '':'' # pad2 m2))"
      by (simp add: hhmm_def)
    have c: "CHR '':'' \<notin> set (pad2 h1) \<union> set (pad2 m1) \<union> set (pad2 h2) \<union> set (pad2 m2)"
      using colon_pad2 assms(3,4) m by simp
    have n: "Number (testRuntime ident) (pad2 n) = Fin (of_int (int n))"
      if "n < 100" for n
      using Number_pad2[OF that] by (simp add: testRuntime_def)
    have b: "\<bar>int n\<bar> < 2 ^ 46" if "n < 100" for n using that by simp
    from r have "int h2 * 60 + int m2 > int h1 * 60 + int m1"
      unfolding endAfterStart_times[OF c n[OF assms(3)] n[OF m(1)] n[OF assms(4)] n[OF m(2)]
          b[OF assms(3)] b[OF m(1)] b[OF assms(4)] b[OF m(2)]] .
    with assms(7) show False by linarith
  qed
  with assms(8) show ?thesis by (simp add: post_bookings_def)
qed

subsection \<open>The readers: the join with rooms and users\<close>

lemma withDetails_Some:
  assumes "withDetails st booking = Some bw"
  shows "Booking.truncate bw = booking"
    and "map_of (rooms st) (roomId booking) = Some (room bw)"
    and "\<exists>u. map_of (users st) (facultyId booking) = Some u \<and>
           faculty bw = \<lparr>f_id = u_id u, f_name = u_name u, f_email = u_email u\<rparr>"
  using assms unfolding withDetails_def
  by (auto split: option.splits
      simp: Booking.extend_def BookingWithDetails.fields_def Booking.truncate_def)

lemma getBookings_member:
  assumes "bw \<in> set (getBookings env st fo)"
  shows "\<exists>booking \<in> snd ` set (bookings st). withDetails st booking = Some bw"
proof -
  have sub: "set bs \<subseteq> A \<Longrightarrow> set (applyFilter v p bs) \<subseteq> A" for v p bs A
    by (auto simp: applyFilter_def split: option.splits)
  from assms obtain booking sel where "withDetails st booking = Some bw"
    and "booking \<in> set sel"
    and sel: "sel =
      (case fo of
         None \<Rightarrow> map snd (bookings st)
       | Some f \<Rightarrow>
           applyFilter (f_dateTo f) (\<lambda>b s. date b \<le> s)
             (applyFilter (f_dateFrom f) (\<lambda>b s. date b \<ge> s)
               (applyFilter (f_status f) (\<lambda>b s. status_str (status b) = s)
                 (applyFilter (f_facultyId f) (\<lambda>b s. facultyId b = s)
                   (applyFilter (f_roomId f) (\<lambda>b s. roomId b = s)
                      (map snd (bookings st)))))))"
    unfolding getBookings_def Let_def by (auto simp: List.map_filter_def)
  moreover have "set sel \<subseteq> snd ` set (bookings st)"
    unfolding sel by (cases fo) (simp_all add: sub)
  ultimately show ?thesis by blast
qed

lemma withDetails_ownerData:
  "withDetails st booking =
     (case map_of (rooms st) (roomId booking) of
        None \<Rightarrow> None
      | Some rm \<Rightarrow>
          map_option (\<lambda>fi. Booking.extend booking (BookingWithDetails.fields rm fi))
            (map_option ownerData (map_of (users st) (facultyId booking))))"
  unfolding withDetails_def ownerData_def by (simp split: option.splits)

lemma withDetails_sameOwnerData:
  assumes "sameOwnerData st1 st2"
  shows "withDetails st1 = withDetails st2"
proof
  fix booking
  from assms have "map_of (map (\<lambda>(k, u). (k, ownerData u)) (users st1)) =
      map_of (map (\<lambda>(k, u). (k, ownerData u)) (users st2))"
    unfolding sameOwnerData_def by simp
  then have u: "map_option ownerData (map_of (users st1) k) =
      map_option ownerData (map_of (users st2) k)" for k
    unfolding map_of_map by (simp add: fun_eq_iff)
  from assms have r: "rooms st1 = rooms st2" unfolding sameOwnerData_def by simp
  show "withDetails st1 booking = withDetails st2 booking"
    unfolding withDetails_ownerData u r ..
qed

text \<open>
  C9. For every store and every filter, what \<^verbatim>\<open>getBookings\<close> and \<^verbatim>\<open>getBooking\<close>
  return is the same in any store with the same rooms and bookings whose users have the
  same ids, names and emails: no password (and no username, role or creation time) has
  any influence on a result. The owner data of each booking they return is the stored
  owner's id, name and email and nothing else.
\<close>

theorem getBookings_no_credentials:
  assumes "sameOwnerData st st2"
  shows "getBookings env st fo = getBookings env st2 fo \<and>
         getBooking st ident = getBooking st2 ident \<and>
         (\<forall>bw \<in> set (getBookings env st fo) \<union> set_option (getBooking st ident).
            \<exists>u. map_of (users st) (facultyId bw) = Some u \<and>
                faculty bw = \<lparr>f_id = u_id u, f_name = u_name u, f_email = u_email u\<rparr>)"
proof (intro conjI ballI)
  from assms have b: "bookings st = bookings st2" unfolding sameOwnerData_def by simp
  show "getBookings env st fo = getBookings env st2 fo"
    unfolding getBookings_def withDetails_sameOwnerData[OF assms] b ..
  show "getBooking st ident = getBooking st2 ident"
    unfolding getBooking_def withDetails_sameOwnerData[OF assms] b ..
next
  fix bw assume "bw \<in> set (getBookings env st fo) \<union> set_option (getBooking st ident)"
  then obtain booking where w: "withDetails st booking = Some bw"
    using getBookings_member[of bw env st fo]
    by (auto simp: getBooking_def split: option.splits)
  from withDetails_Some(1)[OF w] have "facultyId bw = facultyId booking"
    by (auto simp: Booking.truncate_def)
  with withDetails_Some(3)[OF w]
  show "\<exists>u. map_of (users st) (facultyId bw) = Some u \<and>
          faculty bw = \<lparr>f_id = u_id u, f_name = u_name u, f_email = u_email u\<rparr>"
    by simp
qed

theorem getBookings_no_credentials_witness:
  "sameOwnerData store1 storeOtherSecrets \<and>
   map (u_password \<circ> snd) (users store1) = [''hash0'', ''hash1''] \<and>
   map (u_password \<circ> snd) (users storeOtherSecrets) = [''changed0'', ''changed1''] \<and>
   getBookings (testRuntime ''x'') store1 None = [booking1Details] \<and>
   getBookings (testRuntime ''x'') storeOtherSecrets None = [booking1Details] \<and>
   getBooking store1 ''b1'' = Some booking1Details \<and>
   getBooking storeOtherSecrets ''b1'' = Some booking1Details \<and>
   map_of (users store1) (facultyId booking1Details) = Some alice \<and>
   faculty booking1Details =
     \<lparr>f_id = u_id alice, f_name = u_name alice, f_email = u_email alice\<rparr>"
  using getBookings_no_credentials [where env = "testRuntime ''x''" and st = store1
      and ?st2.0 = storeOtherSecrets and fo = None and ident = "''b1''"]
  by (simp add: handler_defs fixture_defs sameOwnerData_def ownerData_def)

subsection \<open>Bookings whose room or owner is not in the store\<close>

text \<open>
  C10. \<^verbatim>\<open>createBooking\<close> has no failing branch: for an input whose \<^verbatim>\<open>roomId\<close> names no
  stored room, or whose \<^verbatim>\<open>facultyId\<close> names no stored user, it returns the new booking
  and stores it under the generated id. In the store it leaves, \<^verbatim>\<open>getBooking\<close> finds
  nothing under that id and no result of \<^verbatim>\<open>getBookings\<close>, for any filter, contains the
  booking, while the map still holds it.
\<close>

theorem createBooking_dangling:
  assumes "map_of (rooms st) (i_roomId ins) = None \<or>
           map_of (users st) (i_facultyId ins) = None"
  shows "\<exists>booking st'. createBooking env st ins = (booking, st') \<and>
           b_id booking = randomUUID env \<and>
           roomId booking = i_roomId ins \<and> facultyId booking = i_facultyId ins \<and>
           map_of (bookings st') (randomUUID env) = Some booking \<and>
           getBooking st' (randomUUID env) = None \<and>
           (\<forall>env' fo. booking \<notin> Booking.truncate ` set (getBookings env' st' fo))"
proof -
  obtain booking st' where c: "createBooking env st ins = (booking, st')"
    by (cases "createBooking env st ins")
  have f: "roomId booking = i_roomId ins" "facultyId booking = i_facultyId ins"
    "rooms st' = rooms st" "users st' = users st"
    using c unfolding createBooking_def by (auto simp: Let_def)
  have w: "withDetails st' booking = None"
    using assms unfolding withDetails_def f by (auto split: option.splits)
  have "booking \<notin> Booking.truncate ` set (getBookings env' st' fo)" for env' fo
  proof
    assume "booking \<in> Booking.truncate ` set (getBookings env' st' fo)"
    then obtain bw where "bw \<in> set (getBookings env' st' fo)"
      and t: "Booking.truncate bw = booking"
      by auto
    then obtain x where "withDetails st' x = Some bw" using getBookings_member by blast
    with withDetails_Some(1)[OF this] t w show False by simp
  qed
  with c f w createBooking_stored[OF c] show ?thesis
    by (auto simp: getBooking_def)
qed

theorem createBooking_dangling_witness:
  "map_of (rooms store0) (i_roomId ghostInsert) = None \<and>
   createBooking (testRuntime ''b1'') store0 ghostInsert = (ghostBooking, storeGhost) \<and>
   map_of (bookings storeGhost) ''b1'' = Some ghostBooking \<and>
   getBooking storeGhost ''b1'' = None \<and>
   getBookings (testRuntime ''x'') storeGhost None = []"
  using createBooking_dangling [where st = store0 and ins = ghostInsert
      and env = "testRuntime ''b1''"]
  by (simp add: handler_defs fixture_defs)

subsection \<open>Updating and cancelling a booking\<close>

lemma getBooking_stored:
  "getBooking st ident = Some bw \<Longrightarrow> \<exists>old. map_of (bookings st) ident = Some old"
  unfolding getBooking_def by (auto split: option.splits)

lemma updateBooking_stored:
  assumes "map_of (bookings st) ident = Some old"
  shows "updateBooking st ident upd =
           (Some (spread old upd),
            st\<lparr>bookings := AList.update ident (spread old upd) (bookings st)\<rparr>)"
  using assms by (simp add: updateBooking_def Let_def)

lemma update_present_keys:
  "map_of al k = Some v \<Longrightarrow> map fst (AList.update k v' al) = map fst al"
  by (induction al) (auto split: if_splits)




text \<open>
  PUT /api/bookings/:id never reaches \<^verbatim>\<open>updateBooking\<close>: every request is answered with
  an error status and leaves the store as it was; a request that passes the lookup and
  the permission check is answered 500.
\<close>

lemma put_bookings_rejected:
  "snd (put_bookings st user ident b) = st \<and>
   (\<exists>e. fst (put_bookings st user ident b) = Inl e)"
  by (simp add: put_bookings_def insertBookingSchema_partial_parse_def
      split: option.splits)

lemma put_bookings_500:
  "put_bookings store2 (Some alice) ''b2'' moveTo0930 = (Inl ServerError500, store2)"
  by (simp add: handler_defs fixture_defs)

text \<open>
  C7, as the code has it. For a booking that \<^verbatim>\<open>getBooking\<close> finds (it is stored, and so
  are its room and its owner) and a user who is an admin or its owner, DELETE
  /api/bookings/:id succeeds; afterwards the booking is stored under the same id with
  the status cancelled and every other field as before, every other id maps to what it
  did, the ids of the store are the same in the same order, and users and rooms are
  untouched.
\<close>

theorem delete_bookings_cancels:
  assumes "getBooking st ident = Some bw"
    and "u_role u = Admin \<or> facultyId bw = u_id u"
  shows "\<exists>old st'. delete_bookings st (Some u) ident = (Inr (), st') \<and>
           map_of (bookings st) ident = Some old \<and>
           map_of (bookings st') =
             (map_of (bookings st))(ident \<mapsto> old\<lparr>status := Cancelled\<rparr>) \<and>
           map fst (bookings st') = map fst (bookings st) \<and>
           users st' = users st \<and> rooms st' = rooms st"
proof -
  from getBooking_stored[OF assms(1)] obtain old where
    old: "map_of (bookings st) ident = Some old" ..
  have s: "spread old cancelUpdate = old\<lparr>status := Cancelled\<rparr>"
    by (simp add: spread_def cancelUpdate_def)
  have "delete_bookings st (Some u) ident =
          (Inr (),
           st\<lparr>bookings := AList.update ident (old\<lparr>status := Cancelled\<rparr>) (bookings st)\<rparr>)"
    using assms by (auto simp: delete_bookings_def updateBooking_stored[OF old] s)
  then show ?thesis using old
    by (auto simp: AList.update_conv' update_present_keys)
qed

theorem delete_bookings_cancels_witness:
  "getBooking store2 ''b1'' = Some booking1Details \<and>
   facultyId booking1Details = u_id alice \<and>
   delete_bookings store2 (Some alice) ''b1'' =
     (Inr (), store2\<lparr>bookings := [(''b1'', booking1\<lparr>status := Cancelled\<rparr>), (''b2'', booking2)]\<rparr>) \<and>
   map_of (bookings store2) ''b2'' = Some booking2"
  using delete_bookings_cancels [where st = store2 and ident = "''b1''"
      and bw = booking1Details and u = alice]
  by (simp add: handler_defs fixture_defs)

text \<open>
  C7, as the specification states it, fails for a stored booking whose room is not in the store.
  A faculty request naming an unknown room id is accepted and stored; DELETE by an admin
  then answers 404 and the booking stays pending. The same happens to a booking whose
  room an admin has deleted: its owner's DELETE answers 404.
\<close>

theorem delete_bookings_dangling_counterexample:
  "post_bookings (testRuntime ''b1'') store0 (Some alice)
     ((slot ''09:00'' ''10:00'')(''roomId'' \<mapsto> JStr ''r9'')) = (Inr ghostBooking, storeGhost) \<and>
   map_of (bookings storeGhost) ''b1'' = Some ghostBooking \<and>
   status ghostBooking = Pending \<and>
   u_role root = Admin \<and>
   delete_bookings storeGhost (Some root) ''b1'' = (Inl NotFound404, storeGhost) \<and>
   delete_rooms store1 (Some root) ''r1'' = (Inr (), storeNoRoom) \<and>
   map_of (bookings storeNoRoom) ''b1'' = Some booking1 \<and>
   delete_bookings storeNoRoom (Some alice) ''b1'' = (Inl NotFound404, storeNoRoom)"
  by (simp add: handler_defs fixture_defs)

subsection \<open>Creating rooms and users\<close>

text \<open>
  C5, as the code has it. \<^verbatim>\<open>createRoom\<close> and \<^verbatim>\<open>createUser\<close> of the in-memory store
  check no uniqueness constraint and have no failing branch: for every store and every
  input, also one whose room name, username or email is already stored, they return the
  new entity and store it under the generated id, next to the entries under the other
  ids.
\<close>

theorem createRoom_no_uniqueness_check:
  "(\<exists>rm st'. createRoom env st insertRoom = (rm, st') \<and>
      rm = \<lparr>r_id = randomUUID env, r_name = ir_name insertRoom,
            r_capacity = ir_capacity insertRoom, r_createdAt = now env\<rparr> \<and>
      map_of (rooms st') = (map_of (rooms st))(randomUUID env \<mapsto> rm)) \<and>
   (\<exists>user st'. createUser env st insertUser = (user, st') \<and>
      u_username user = iu_username insertUser \<and> u_email user = iu_email insertUser \<and>
      map_of (users st') = (map_of (users st))(randomUUID env \<mapsto> user))"
  by (simp add: createRoom_def createUser_def Let_def AList.update_conv')

text \<open>
  C5, as the specification states it, fails: the store has a room named Room A101; an admin's
  POST /api/rooms with that name answers with the new room, and the store then has two
  rooms of that name. \<^verbatim>\<open>createUser\<close> likewise stores a second user with the username
  and email of a stored one.
\<close>

theorem createRoom_duplicate_name_counterexample:
  "map (r_name \<circ> snd) (rooms store0) = [''Room A101''] \<and>
   createRoom (testRuntime ''r2'') store0 \<lparr>ir_name = ''Room A101'', ir_capacity = 5\<rparr> =
     (roomAgain, storeTwoRooms) \<and>
   post_rooms (testRuntime ''r2'') store0 (Some root)
     [''name'' \<mapsto> JStr ''Room A101'', ''capacity'' \<mapsto> JNum 5] = (Inr roomAgain, storeTwoRooms) \<and>
   map (r_name \<circ> snd) (rooms storeTwoRooms) = [''Room A101'', ''Room A101''] \<and>
   map (u_username \<circ> snd) (users (snd (createUser (testRuntime ''u2'') store0 aliceAgain))) =
     [''root'', ''alice'', ''alice'']"
  by (simp add: handler_defs fixture_defs)

subsection \<open>The no-overlap invariant\<close>

lemma applyFilter_keeps:
  "x \<in> set bs \<Longrightarrow> p x s \<Longrightarrow> x \<in> set (applyFilter (Some s) p bs)"
  by (simp add: applyFilter_def)

lemma getBookings_room_date:
  assumes "(k, x) \<in> set (bookings st)" and "withDetails st x = Some bw"
  shows "bw \<in> set (getBookings env st
           (Some \<lparr>f_roomId = Some (roomId x), f_facultyId = None, f_status = None,
                  f_dateFrom = Some (date x), f_dateTo = Some (date x)\<rparr>))"
proof -
  have "x \<in> set (map snd (bookings st))" using assms(1) by force
  then have "x \<in> set (applyFilter (Some (date x)) (\<lambda>b s. date b \<le> s)
                   (applyFilter (Some (date x)) (\<lambda>b s. date b \<ge> s)
                     (applyFilter None (\<lambda>b s. status_str (status b) = s)
                       (applyFilter None (\<lambda>b s. facultyId b = s)
                         (applyFilter (Some (roomId x)) (\<lambda>b s. roomId b = s)
                            (map snd (bookings st)))))))"
    by (intro applyFilter_keeps) (simp_all add: applyFilter_def)
  with assms(2) show ?thesis
    unfolding getBookings_def Let_def
    by (auto simp: List.map_filter_def intro!: image_eqI[where x=x])
qed

lemma post_bookings_accepted:
  assumes "post_bookings env st user b = (Inr booking, st')"
  obtains u ins where "user = Some u" "u_role u = Faculty"
    "insertBookingSchema_parse env (b(''facultyId'' \<mapsto> JStr (u_id u))) = Some ins"
    "\<not> hasConflict ins (getBookings env st
        (Some \<lparr>f_roomId = Some (i_roomId ins), f_facultyId = None, f_status = None,
               f_dateFrom = Some (i_date ins), f_dateTo = Some (i_date ins)\<rparr>))"
    "createBooking env st ins = (booking, st')"
  using assms unfolding post_bookings_def
  by (auto split: option.splits if_splits prod.splits simp: Let_def)

text \<open>
  What the gate of POST /api/bookings gives: the booking an accepted request creates
  collides with no stored booking that the readers return (one whose room and owner are
  stored), when both have their start before their end.
\<close>

lemma post_bookings_gate:
  assumes "post_bookings env st user b = (Inr booking, st')"
    and "(k, x) \<in> set (bookings st)" and "withDetails st x = Some bw"
    and "startTime booking < endTime booking" and "startTime x < endTime x"
  shows "\<not> overlapping booking x"
proof
  assume o: "overlapping booking x"
  from assms(1) obtain u :: User and ins where
    nc: "\<not> hasConflict ins (getBookings env st
        (Some \<lparr>f_roomId = Some (i_roomId ins), f_facultyId = None, f_status = None,
               f_dateFrom = Some (i_date ins), f_dateTo = Some (i_date ins)\<rparr>))"
    and c: "createBooking env st ins = (booking, st')"
    by (rule post_bookings_accepted) blast
  have f: "roomId booking = i_roomId ins" "date booking = i_date ins"
    "startTime booking = i_startTime ins" "endTime booking = i_endTime ins"
    using c unfolding createBooking_def by (auto simp: Let_def)
  from o have rd: "i_roomId ins = roomId x" "i_date ins = date x"
    unfolding overlapping_def f by simp_all
  from getBookings_room_date[OF assms(2,3), of env] nc
  have "\<not> conflicts ins bw"
    unfolding hasConflict_def rd by (auto simp: list_ex_iff)
  moreover from withDetails_Some(1)[OF assms(3)]
  have "startTime bw = startTime x" "endTime bw = endTime x" "status bw = status x"
    by (auto simp: Booking.truncate_def)
  ultimately show False
    using o assms(4,5) unfolding overlapping_def conflicts_def f Let_def by auto
qed

text \<open>
  C1. The invariant does not survive accepted POST requests. The gate of POST
  /api/bookings sees only the bookings the readers return, and the handler does not
  check that the room exists: two requests of a faculty user for the same slot, 09:00
  to 10:00 on 2024-01-10, of a room id the store does not have are both accepted, and
  the store then holds two pending bookings of the same room and date that overlap.
  For a room the store has, the second request is refused with status 409.
\<close>

theorem post_bookings_unknown_room_overlap:
  "post_bookings (testRuntime ''b1'') store0 (Some alice)
     ((slot ''09:00'' ''10:00'')(''roomId'' \<mapsto> JStr ''r9'')) = (Inr ghostBooking, storeGhost) \<and>
   post_bookings (testRuntime ''b2'') storeGhost (Some alice)
     ((slot ''09:00'' ''10:00'')(''roomId'' \<mapsto> JStr ''r9'')) = (Inr ghostBooking2, storeGhost2) \<and>
   map_of (bookings storeGhost2) ''b1'' = Some ghostBooking \<and>
   map_of (bookings storeGhost2) ''b2'' = Some ghostBooking2 \<and>
   overlapping ghostBooking ghostBooking2 \<and>
   \<not> noOverlap storeGhost2 \<and>
   post_bookings (testRuntime ''b1'') store0 (Some alice) (slot ''09:00'' ''10:00'') =
     (Inr booking1, store1) \<and>
   post_bookings (testRuntime ''b2'') store1 (Some alice) (slot ''09:00'' ''10:00'') =
     (Inl Conflict409, store1)"
  by (simp add: handler_defs fixture_defs noOverlap_def overlapping_def)

end
